theory Spec2Isabelle
  imports Complex_Main
begin

section \<open>Data model of the media player entity (media_player.py)\<close>

text \<open>
  Modelled from the spec: the enum \<open>State\<close> of the control-channel client library
  (imported as \<open>YtState\<close>) is not part of the sources. Its members are the ones
  listed in section 3 of the specification; the property \<open>state\<close> of the entity names
  six of them, and every other member (here \<open>Idle\<close>) takes its final branch.
\<close>

datatype YtState = Idle | Starting | Buffering | Playing | Paused | Stopped | Advertisement

text \<open>
  Modelled from the spec: the class \<open>PlaybackState\<close> of the client library is not part
  of the sources. Its fields are the four the entity reads, with the types of the
  Playback Snapshot of section 3: the state, a nullable media id, and position and
  duration in seconds. The two floats are reals (not-a-number and the infinities are
  not values of the model). A snapshot object is always true in a condition.
\<close>

record PlaybackState =
  state :: YtState
  videoId :: "string option"
  currentTime :: real
  duration :: real

text \<open>Class \<open>_VideoSnippet\<close>: the part of the metadata service's answer that is read.\<close>

record VideoSnippet =
  title :: string
  description :: string
  channelTitle :: string

text \<open>Class \<open>_VideoInfo\<close> and its constructor.\<close>

record VideoInfo =
  info_id :: string
  info_title :: string
  info_description :: string
  channel_title :: string

definition VideoInfo_init :: "string \<Rightarrow> VideoSnippet \<Rightarrow> VideoInfo" where
  "VideoInfo_init video_id snippet =
     \<lparr>info_id = video_id, info_title = title snippet,
      info_description = description snippet, channel_title = channelTitle snippet\<rparr>"

text \<open>
  Modelled from the spec: the enum \<open>MediaPlayerState\<close> of the host is not part of the
  sources. These are the four members the property \<open>state\<close> returns, the state enum
  (off/on/playing/paused) of section 6.
\<close>

datatype MediaPlayerState = OFF | ON | PLAYING | PAUSED

text \<open>
  The fields of \<open>YtMediaPlayer\<close>: \<open>yt_api\<close> tells whether \<open>self._yt_api\<close> is set (the
  metadata service has been discovered), \<open>state_time\<close> is \<open>self._state_time\<close> (a clock
  reading), \<open>cached_state\<close> is \<open>self._state\<close>, \<open>video_info\<close> is \<open>self._video_info\<close> and
  \<open>subscription\<close> is \<open>self._subscription\<close>, the number of a task of the event loop.
\<close>

record YtMediaPlayer =
  yt_api :: bool
  state_time :: nat
  cached_state :: "PlaybackState option"
  video_info :: "VideoInfo option"
  subscription :: "nat option"

text \<open>\<open>YtMediaPlayer.__init__\<close>, given the reading of the clock.\<close>

definition YtMediaPlayer_init :: "nat \<Rightarrow> YtMediaPlayer" where
  "YtMediaPlayer_init now =
     \<lparr>yt_api = False, state_time = now, cached_state = None, video_info = None,
      subscription = None\<rparr>"

section \<open>The observable properties\<close>

text \<open>Python's \<open>int\<close> on a float truncates towards zero.\<close>

definition py_int :: "real \<Rightarrow> int" where
  "py_int x = (if 0 \<le> x then \<lfloor>x\<rfloor> else \<lceil>x\<rceil>)"

text \<open>Property \<open>state\<close>.\<close>

definition state_prop :: "YtMediaPlayer \<Rightarrow> MediaPlayerState" where
  "state_prop self =
     (case cached_state self of
        None \<Rightarrow> OFF
      | Some s \<Rightarrow>
          if state s \<in> set [Playing, Starting, Buffering, Advertisement] then PLAYING
          else if state s = Paused then PAUSED
          else if state s = Stopped then ON
          else OFF)"

text \<open>Properties \<open>media_title\<close> and \<open>media_channel\<close>: \<open>x and x.f or None\<close>.\<close>

definition media_title :: "YtMediaPlayer \<Rightarrow> string option" where
  "media_title self =
     (case video_info self of
        None \<Rightarrow> None
      | Some v \<Rightarrow> if info_title v \<noteq> [] then Some (info_title v) else None)"

definition media_channel :: "YtMediaPlayer \<Rightarrow> string option" where
  "media_channel self =
     (case video_info self of
        None \<Rightarrow> None
      | Some v \<Rightarrow> if channel_title v \<noteq> [] then Some (channel_title v) else None)"

text \<open>Properties \<open>media_position\<close> and \<open>media_duration\<close>: \<open>x and int(x.f) or None\<close>.\<close>

definition media_position :: "YtMediaPlayer \<Rightarrow> int option" where
  "media_position self =
     (case cached_state self of
        None \<Rightarrow> None
      | Some s \<Rightarrow> if py_int (currentTime s) \<noteq> 0 then Some (py_int (currentTime s)) else None)"

definition media_duration :: "YtMediaPlayer \<Rightarrow> int option" where
  "media_duration self =
     (case cached_state self of
        None \<Rightarrow> None
      | Some s \<Rightarrow> if py_int (duration s) \<noteq> 0 then Some (py_int (duration s)) else None)"

text \<open>
  Property \<open>media_position_updated_at\<close>: \<open>self._state and self._state_time or None\<close>;
  a datetime is always truthy.
\<close>

definition media_position_updated_at :: "YtMediaPlayer \<Rightarrow> nat option" where
  "media_position_updated_at self =
     (case cached_state self of None \<Rightarrow> None | Some s \<Rightarrow> Some (state_time self))"

section \<open>The notification callback\<close>

text \<open>
  Python's exceptions, as far as the entity tells them apart: the cancellation of a
  task, and everything else.
\<close>

datatype exn = CancelledError | OtherError

text \<open>
  What the entity does to its collaborators, in the order it does it: the calls on the
  control-channel client, the sleeps, the request to the metadata service, the
  notification of the host (\<open>async_write_ha_state\<close>) and \<open>LOGGER.exception\<close>. The
  entries of \<open>LOGGER.debug\<close> are left out.
\<close>

datatype event =
    CallConnected | CallConnect | CallLinked | CallRefreshAuth | CallSubscribe
  | CallSleep nat | CallLookup string | WriteHaState | LogException

text \<open>
  \<open>__update_video_snippet\<close>. The request to the metadata service is made at most once
  in a call; \<open>answer\<close> is what the service gives if it is asked: the snippet, or the
  exception raised inside the \<open>async with\<close> block (by the request, or by
  \<open>response["items"][0]["snippet"]\<close>). The function has no handler, so the exception
  leaves it with \<open>self._video_info\<close> as it was. The scrutinee is
  the value of \<open>self._yt_api and self._state and self._state.videoId\<close> when it is true
  (a \<open>videoId\<close> that is \<open>None\<close> or empty is false). The result is the exception
  raised, if any, the entity and the calls made.
\<close>

definition update_video_snippet ::
  "exn + VideoSnippet \<Rightarrow> YtMediaPlayer \<Rightarrow> exn option \<times> YtMediaPlayer \<times> event list" where
  "update_video_snippet answer self =
     (case (if yt_api self then
              (case cached_state self of
                 None \<Rightarrow> None
               | Some s \<Rightarrow>
                   (case videoId s of
                      None \<Rightarrow> None
                    | Some vid \<Rightarrow> if vid = [] then None else Some vid))
            else None) of
        Some vid \<Rightarrow>
          if (case video_info self of None \<Rightarrow> False | Some v \<Rightarrow> vid = info_id v)
          then (None, self, [])
          else
            (case answer of
               Inl e \<Rightarrow> (Some e, self, [CallLookup vid])
             | Inr snippet \<Rightarrow>
                 (None, self\<lparr>video_info := Some (VideoInfo_init vid snippet)\<rparr>,
                  [CallLookup vid]))
      | None \<Rightarrow> (None, self\<lparr>video_info := None\<rparr>, []))"

text \<open>
  \<open>__new_state\<close>: \<open>now\<close> is the value of \<open>utcnow()\<close>. An exception of
  \<open>__update_video_snippet\<close> leaves the function before \<open>async_write_ha_state\<close>.
\<close>

definition new_state ::
  "nat \<Rightarrow> PlaybackState option \<Rightarrow> exn + VideoSnippet \<Rightarrow> YtMediaPlayer
     \<Rightarrow> exn option \<times> YtMediaPlayer \<times> event list" where
  "new_state now st answer self =
     (case update_video_snippet answer (self\<lparr>state_time := now, cached_state := st\<rparr>) of
        (Some e, self', evs) \<Rightarrow> (Some e, self', evs)
      | (None, self', evs) \<Rightarrow> (None, self', evs @ [WriteHaState]))"

text \<open>
  The callback applied to a sequence of notifications, each with the reading of the
  clock at its arrival and the answer the metadata service has for it. Every
  notification is processed on the entity as the one before left it, whether or not
  that one raised.
\<close>

type_synonym notification = "nat \<times> PlaybackState option \<times> (exn + VideoSnippet)"

fun deliver :: "notification list \<Rightarrow> YtMediaPlayer \<Rightarrow> YtMediaPlayer \<times> event list" where
  "deliver [] self = (self, [])"
| "deliver ((now, st, answer) # ns) self =
     (case new_state now st answer self of
        (_, self', evs) \<Rightarrow> (case deliver ns self' of (self'', evs') \<Rightarrow> (self'', evs @ evs')))"

text \<open>The ids the metadata service was asked for, in order.\<close>

fun lookups :: "event list \<Rightarrow> string list" where
  "lookups [] = []"
| "lookups (CallLookup vid # evs) = vid # lookups evs"
| "lookups (_ # evs) = lookups evs"

section \<open>The supervision task\<close>

definition CONNECT_RETRY_INTERVAL :: nat where "CONNECT_RETRY_INTERVAL = 10"
definition ERROR_RETRY_INTERVAL :: nat where "ERROR_RETRY_INTERVAL = 30"
definition SUBSCRIBE_RETRY_INTERVAL :: nat where "SUBSCRIBE_RETRY_INTERVAL = 1"

text \<open>
  The coroutine \<open>__subscription_task\<close>, with \<open>__subscribe_and_keep_alive\<close> inside it, is
  a machine that runs from one call on its environment to the next. Its control state
  is the call it is waiting in (line numbers of media_player.py):
  \<^item> \<open>Created\<close>: the task exists and its coroutine has not been started;
  \<^item> \<open>AtConnected0\<close>: \<open>connected()\<close> of the connect phase (109);
  \<^item> \<open>AtConnect0\<close>: \<open>connect()\<close> of the connect phase (110);
  \<^item> \<open>AtConnected1\<close>: \<open>connected()\<close>, the condition of the reconnect loop (113);
  \<^item> \<open>AtSleepRetry\<close>: \<open>sleep(CONNECT_RETRY_INTERVAL)\<close> (116);
  \<^item> \<open>AtLinked\<close>: \<open>linked()\<close> (117);
  \<^item> \<open>AtRefresh\<close>: \<open>refresh_auth()\<close> (118);
  \<^item> \<open>AtConnect1\<close>: \<open>connect()\<close> of the reconnect loop (119);
  \<^item> \<open>AtSubscribe\<close>: \<open>subscribe(self.__new_state)\<close> (121);
  \<^item> \<open>AtSleepSub\<close>: \<open>sleep(SUBSCRIBE_RETRY_INTERVAL)\<close> (122);
  \<^item> \<open>AtBackoff\<close>: \<open>sleep(ERROR_RETRY_INTERVAL)\<close> in the handler of the wrapper (106);
  \<^item> \<open>Exited\<close>: the task has returned, through \<open>break\<close> (100);
  \<^item> \<open>Crashed e\<close>: the exception \<open>e\<close> has left the coroutine and is the task's result.
\<close>

datatype pc =
    Created | AtConnected0 | AtConnect0 | AtConnected1 | AtSleepRetry | AtLinked
  | AtRefresh | AtConnect1 | AtSubscribe | AtSleepSub | AtBackoff | Exited | Crashed exn

text \<open>
  What the environment does to the pending call: the call returns (the boolean is the
  value of \<open>connected\<close>, \<open>linked\<close>, \<open>connect\<close> and \<open>refresh_auth\<close>, and is not read
  after a sleep or \<open>subscribe\<close>), the call raises, or, during \<open>subscribe\<close>, the client
  invokes the callback with a snapshot (together with the answer of the metadata
  service for it). A cancellation of the task arrives as \<open>Raises CancelledError\<close> in the
  call the task is suspended in. Each reply comes with the reading of the clock.
\<close>

datatype reply =
    Returns bool
  | Raises exn
  | Notifies "PlaybackState option" "exn + VideoSnippet"

text \<open>
  The handlers of \<open>__subscription_task\<close> for an exception that leaves
  \<open>__subscribe_and_keep_alive\<close>: \<open>break\<close> on a cancellation, otherwise the log entry
  and the sleep.
\<close>

definition raised :: "exn \<Rightarrow> YtMediaPlayer \<Rightarrow> pc \<times> YtMediaPlayer \<times> event list" where
  "raised e self =
     (case e of
        CancelledError \<Rightarrow> (Exited, self, [])
      | OtherError \<Rightarrow> (AtBackoff, self, [LogException, CallSleep ERROR_RETRY_INTERVAL]))"

text \<open>
  One step of the task: the reply to the pending call, then the code up to the next
  call. The events are the calls made in the step, the last one being the call the
  new control state waits in.

  A sleep returns or is cancelled; \<open>asyncio.sleep\<close> raises nothing else. An unstarted
  coroutine is started or cancelled. An exception of the callback leaves \<open>subscribe\<close>
  as the exception of that call (the client library is not part of the sources; Python
  propagates it unless the library intercepts it). In line 115 the snapshot is
  \<open>None\<close>, for which the metadata service is not asked, so the answer passed there is
  not read. A reply that cannot occur at the pending call, and any reply to a finished
  task, changes nothing (last equation).
\<close>

fun resume :: "pc \<Rightarrow> nat \<times> reply \<Rightarrow> YtMediaPlayer \<Rightarrow> pc \<times> YtMediaPlayer \<times> event list" where
  "resume Created (now, Returns b) self = (AtConnected0, self, [CallConnected])"
| "resume Created (now, Raises CancelledError) self = (Crashed CancelledError, self, [])"
| "resume AtConnected0 (now, Returns b) self =
     (if \<not> b then (AtConnect0, self, [CallConnect]) else (AtConnected1, self, [CallConnected]))"
| "resume AtConnected0 (now, Raises e) self = raised e self"
| "resume AtConnect0 (now, Returns b) self = (AtConnected1, self, [CallConnected])"
| "resume AtConnect0 (now, Raises e) self = raised e self"
| "resume AtConnected1 (now, Returns b) self =
     (if \<not> b then
        (case new_state now None (Inl OtherError) self of
           (Some e, self', evs) \<Rightarrow>
             (case raised e self' of (p, self'', evs') \<Rightarrow> (p, self'', evs @ evs'))
         | (None, self', evs) \<Rightarrow> (AtSleepRetry, self', evs @ [CallSleep CONNECT_RETRY_INTERVAL]))
      else (AtSubscribe, self, [CallSubscribe]))"
| "resume AtConnected1 (now, Raises e) self = raised e self"
| "resume AtSleepRetry (now, Returns b) self = (AtLinked, self, [CallLinked])"
| "resume AtSleepRetry (now, Raises CancelledError) self = raised CancelledError self"
| "resume AtLinked (now, Returns b) self =
     (if \<not> b then (AtRefresh, self, [CallRefreshAuth]) else (AtConnect1, self, [CallConnect]))"
| "resume AtLinked (now, Raises e) self = raised e self"
| "resume AtRefresh (now, Returns b) self = (AtConnect1, self, [CallConnect])"
| "resume AtRefresh (now, Raises e) self = raised e self"
| "resume AtConnect1 (now, Returns b) self = (AtConnected1, self, [CallConnected])"
| "resume AtConnect1 (now, Raises e) self = raised e self"
| "resume AtSubscribe (now, Notifies st answer) self =
     (case new_state now st answer self of
        (Some e, self', evs) \<Rightarrow>
          (case raised e self' of (p, self'', evs') \<Rightarrow> (p, self'', evs @ evs'))
      | (None, self', evs) \<Rightarrow> (AtSubscribe, self', evs))"
| "resume AtSubscribe (now, Returns b) self =
     (AtSleepSub, self, [CallSleep SUBSCRIBE_RETRY_INTERVAL])"
| "resume AtSubscribe (now, Raises e) self = raised e self"
| "resume AtSleepSub (now, Returns b) self = (AtConnected1, self, [CallConnected])"
| "resume AtSleepSub (now, Raises CancelledError) self = raised CancelledError self"
| "resume AtBackoff (now, Returns b) self = (AtConnected0, self, [CallConnected])"
| "resume AtBackoff (now, Raises CancelledError) self = (Crashed CancelledError, self, [])"
| "resume p r self = (p, self, [])"

text \<open>The task run on a script of replies, with all the calls it makes.\<close>

fun run :: "pc \<times> YtMediaPlayer \<Rightarrow> (nat \<times> reply) list \<Rightarrow> pc \<times> YtMediaPlayer \<times> event list" where
  "run (p, self) [] = (p, self, [])"
| "run (p, self) (r # rs) =
     (case resume p r self of
        (p', self', evs) \<Rightarrow>
          (case run (p', self') rs of (p'', self'', evs') \<Rightarrow> (p'', self'', evs @ evs')))"

text \<open>A task is finished when it has returned or an exception has left it.\<close>

fun finished :: "pc \<Rightarrow> bool" where
  "finished Exited = True"
| "finished (Crashed e) = True"
| "finished p = False"

section \<open>The task handle and the manual reconnect\<close>

text \<open>
  The entity and the tasks that \<open>hass.async_create_task\<close> has made, each with the
  control state it is suspended in. A task handle is the position of its task in
  the list.
\<close>

record world =
  player :: YtMediaPlayer
  tasks :: "pc list"

text \<open>\<open>self.hass.async_create_task(self.__subscription_task())\<close>: the new handle.\<close>

definition async_create_task :: "world \<Rightarrow> nat \<times> world" where
  "async_create_task w = (length (tasks w), w\<lparr>tasks := tasks w @ [Created]\<rparr>)"

text \<open>
  \<open>Task.cancel()\<close>: the cancellation is raised in the call the task is suspended in,
  and the task runs its handlers. On a finished task it does nothing. A handle always
  names a task of the list; for any other number nothing happens.
\<close>

definition cancel :: "nat \<Rightarrow> nat \<Rightarrow> world \<Rightarrow> world" where
  "cancel now i w =
     (if i < length (tasks w) then
        (case resume (tasks w ! i) (now, Raises CancelledError) (player w) of
           (p, self, evs) \<Rightarrow> w\<lparr>player := self, tasks := (tasks w)[i := p]\<rparr>)
      else w)"

text \<open>
  \<open>await task\<close> on a finished task: the exception that is the task's result is raised
  in the awaiting coroutine, and a task that has returned gives \<open>None\<close>.
\<close>

definition await_task :: "nat \<Rightarrow> world \<Rightarrow> exn option" where
  "await_task i w =
     (if i < length (tasks w) then (case tasks w ! i of Crashed e \<Rightarrow> Some e | _ \<Rightarrow> None)
      else None)"

text \<open>
  \<open>self._subscription = self.hass.async_create_task(self.__subscription_task())\<close>,
  the last line of \<open>manual_reconnect\<close> (135) and the one of \<open>async_added_to_hass\<close> (141).
\<close>

definition start_subscription_task :: "world \<Rightarrow> world" where
  "start_subscription_task w =
     (case async_create_task w of
        (t, w') \<Rightarrow> w'\<lparr>player := (player w')\<lparr>subscription := Some t\<rparr>\<rparr>)"

text \<open>
  \<open>manual_reconnect\<close>, run without another coroutine of the entity in between.
  \<open>refresh_res\<close> and \<open>connect_res\<close> are the outcomes of \<open>refresh_auth()\<close> and
  \<open>connect()\<close> should they be called: an exception or the value. A \<open>Task\<close> is always
  truthy. The result is the exception that leaves the function, if any, the world and
  the calls made on the client.
\<close>

definition manual_reconnect ::
  "nat \<Rightarrow> exn + bool \<Rightarrow> exn + bool \<Rightarrow> world \<Rightarrow> exn option \<times> world \<times> event list" where
  "manual_reconnect now refresh_res connect_res w =
     (case subscription (player w) of
        None \<Rightarrow> (None, start_subscription_task w, [])
      | Some i \<Rightarrow>
          (let w1 = cancel now i w in
           case await_task i w1 of
             Some e \<Rightarrow> (Some e, w1, [])
           | None \<Rightarrow>
               (case refresh_res of
                  Inl e \<Rightarrow> (Some e, w1, [CallRefreshAuth])
                | Inr refreshed \<Rightarrow>
                    (case connect_res of
                       Inl e \<Rightarrow> (Some e, w1, [CallRefreshAuth, CallConnect])
                     | Inr c \<Rightarrow>
                         (None, start_subscription_task w1, [CallRefreshAuth, CallConnect])))))"

text \<open>\<open>async_added_to_hass\<close>, as far as the supervision task is concerned.\<close>

definition async_added_to_hass :: "world \<Rightarrow> world" where
  "async_added_to_hass w = start_subscription_task w"

text \<open>\<open>__removed_from_hass\<close>.\<close>

definition removed_from_hass :: "nat \<Rightarrow> world \<Rightarrow> world" where
  "removed_from_hass now w =
     (case subscription (player w) of
        None \<Rightarrow> w
      | Some i \<Rightarrow>
          (let w1 = cancel now i w in w1\<lparr>player := (player w1)\<lparr>subscription := None\<rparr>\<rparr>))"

text \<open>The task with handle \<open>i\<close> run on a script, on the entity it shares with the others.\<close>

definition run_task :: "nat \<Rightarrow> (nat \<times> reply) list \<Rightarrow> world \<Rightarrow> world \<times> event list" where
  "run_task i script w =
     (if i < length (tasks w) then
        (case run (tasks w ! i, player w) script of
           (p, self, evs) \<Rightarrow> (w\<lparr>player := self, tasks := (tasks w)[i := p]\<rparr>, evs))
      else (w, []))"

text \<open>The tasks that are not finished.\<close>

definition alive :: "world \<Rightarrow> nat list" where
  "alive w = filter (\<lambda>i. \<not> finished (tasks w ! i)) [0 ..< length (tasks w)]"

section \<open>Vocabulary of the theorems\<close>

text \<open>
  A reply that brings a cancellation: raised in the pending call, or raised in the
  request to the metadata service while the callback runs.
\<close>

fun cancels :: "reply \<Rightarrow> bool" where
  "cancels (Raises CancelledError) = True"
| "cancels (Notifies st (Inl CancelledError)) = True"
| "cancels r = False"

text \<open>
  A notification whose snapshot carries the media id \<open>vid\<close> and for which the metadata
  service has an answer.
\<close>

definition carrying :: "string \<Rightarrow> nat \<times> PlaybackState \<times> VideoSnippet \<Rightarrow> notification" where
  "carrying vid = (\<lambda>(now, s, snippet). (now, Some (s\<lparr>videoId := Some vid\<rparr>), Inr snippet))"

text \<open>Concrete values for the examples: a snapshot of a playing video and a snippet.\<close>

definition playing :: "string \<Rightarrow> PlaybackState" where
  "playing vid = \<lparr>state = Playing, videoId = Some vid, currentTime = 5, duration = 100\<rparr>"

definition snippet0 :: VideoSnippet where
  "snippet0 = \<lparr>title = ''t'', description = ''d'', channelTitle = ''c''\<rparr>"

text \<open>
  The world after the entity has been added, its task has been started, has found the
  channel connected and has subscribed, and \<open>subscribe\<close> has raised an error: the
  task is in the sleep of the error handler.
\<close>

definition world_in_backoff :: world where
  "world_in_backoff =
     fst (run_task 0
       [(1, Returns True), (2, Returns True), (3, Returns True), (4, Raises OtherError)]
       (async_added_to_hass \<lparr>player = YtMediaPlayer_init 0, tasks = []\<rparr>))"

section \<open>The observable properties: theorems\<close>

text \<open>
  Claim C7. The observable state tells the null snapshot from a snapshot that is
  explicitly Stopped: without a snapshot the state is OFF, a Stopped snapshot gives ON,
  which is not OFF; Playing, Starting, Buffering and Advertisement give PLAYING and
  Paused gives PAUSED.
\<close>

theorem state_null_versus_stopped:
  "state_prop (self\<lparr>cached_state := None\<rparr>) = OFF
   \<and> state_prop (self\<lparr>cached_state := Some (s\<lparr>state := Stopped\<rparr>)\<rparr>) = ON
   \<and> ON \<noteq> OFF
   \<and> state_prop (self\<lparr>cached_state := Some (s\<lparr>state := Playing\<rparr>)\<rparr>) = PLAYING
   \<and> state_prop (self\<lparr>cached_state := Some (s\<lparr>state := Starting\<rparr>)\<rparr>) = PLAYING
   \<and> state_prop (self\<lparr>cached_state := Some (s\<lparr>state := Buffering\<rparr>)\<rparr>) = PLAYING
   \<and> state_prop (self\<lparr>cached_state := Some (s\<lparr>state := Advertisement\<rparr>)\<rparr>) = PLAYING
   \<and> state_prop (self\<lparr>cached_state := Some (s\<lparr>state := Paused\<rparr>)\<rparr>) = PAUSED"
  by (simp add: state_prop_def)

text \<open>
  Claim C9. A cached snapshot whose position is exactly 0.0 seconds shows no position
  (\<open>None\<close>, not 0); a duration of 0.0 shows no duration; an empty title or channel
  name shows no title or channel.
\<close>

theorem falsy_values_project_to_None:
  "media_position (self\<lparr>cached_state := Some (s\<lparr>currentTime := 0\<rparr>)\<rparr>) = None
   \<and> media_duration (self\<lparr>cached_state := Some (s\<lparr>duration := 0\<rparr>)\<rparr>) = None
   \<and> media_title (self\<lparr>video_info := Some (v\<lparr>info_title := []\<rparr>)\<rparr>) = None
   \<and> media_channel (self\<lparr>video_info := Some (v\<lparr>channel_title := []\<rparr>)\<rparr>) = None"
  by (simp add: media_position_def media_duration_def media_title_def media_channel_def
      py_int_def)

section \<open>The notification callback: theorems\<close>

lemma new_state_null:
  "new_state now None answer self =
     (None, self\<lparr>state_time := now, cached_state := None, video_info := None\<rparr>, [WriteHaState])"
  by (simp add: new_state_def update_video_snippet_def)

lemma new_state_cached_state:
  "cached_state (fst (snd (new_state now st answer self))) = st"
  by (auto simp: new_state_def update_video_snippet_def
      split: option.splits sum.splits prod.splits if_splits)

lemma new_state_state_time:
  "state_time (fst (snd (new_state now st answer self))) = now"
  by (auto simp: new_state_def update_video_snippet_def
      split: option.splits sum.splits prod.splits if_splits)

lemma new_state_yt_api:
  "yt_api (fst (snd (new_state now st answer self))) = yt_api self"
  by (auto simp: new_state_def update_video_snippet_def
      split: option.splits sum.splits prod.splits if_splits)

lemma fst_deliver_Cons:
  "fst (deliver ((now, st, answer) # ns) self) =
     fst (deliver ns (fst (snd (new_state now st answer self))))"
  by (simp split: prod.splits)

lemma snd_deliver_Cons:
  "snd (deliver ((now, st, answer) # ns) self) =
     snd (snd (new_state now st answer self))
     @ snd (deliver ns (fst (snd (new_state now st answer self))))"
  by (simp split: prod.splits)

lemma deliver_append:
  "fst (deliver (xs @ ys) self) = fst (deliver ys (fst (deliver xs self)))"
proof (induction xs arbitrary: self)
  case Nil
  then show ?case by simp
next
  case (Cons x xs)
  obtain now st answer where x: "x = (now, st, answer)" by (cases x)
  show ?case unfolding x append_Cons fst_deliver_Cons by (rule Cons.IH)
qed

text \<open>
  Claim C4, as amended. After the notifications N1..Nk the cache holds exactly Nk and
  the stored timestamp is the reading of the clock taken for Nk. The observable
  position-updated-at is that reading when Nk is a snapshot, and null when Nk is null.
\<close>

theorem cache_last_write_wins:
  "cached_state (fst (deliver (ns @ [(now, st, answer)]) self)) = st
   \<and> state_time (fst (deliver (ns @ [(now, st, answer)]) self)) = now
   \<and> media_position_updated_at (fst (deliver (ns @ [(now, st, answer)]) self)) =
       (case st of None \<Rightarrow> None | Some s \<Rightarrow> Some now)"
proof -
  have eq: "fst (deliver (ns @ [(now, st, answer)]) self) =
      fst (snd (new_state now st answer (fst (deliver ns self))))"
    by (simp add: deliver_append split: prod.splits)
  show ?thesis unfolding eq media_position_updated_at_def
    by (simp add: new_state_cached_state new_state_state_time split: option.splits)
qed

text \<open>
  Claim C4 as stated fails: a null notification at time 1 and a second one at time 2
  leave the observable position-updated-at the same (null).
\<close>

theorem position_updated_at_same_counterexample:
  "media_position_updated_at
     (fst (deliver [(1, None, Inl OtherError)] (YtMediaPlayer_init 0))) =
   media_position_updated_at
     (fst (deliver [(1, None, Inl OtherError), (2, None, Inl OtherError)]
        (YtMediaPlayer_init 0)))"
  by (simp add: new_state_def update_video_snippet_def YtMediaPlayer_init_def
      media_position_updated_at_def)

lemma lookups_append: "lookups (xs @ ys) = lookups xs @ lookups ys"
  by (induction xs rule: lookups.induct) auto

lemma new_state_lookups:
  "lookups (snd (snd (new_state now st answer self))) =
     (if yt_api self then
        (case st of
           None \<Rightarrow> []
         | Some s \<Rightarrow>
             (case videoId s of
                None \<Rightarrow> []
              | Some vid \<Rightarrow>
                  if vid = [] \<or> (case video_info self of None \<Rightarrow> False | Some v \<Rightarrow> vid = info_id v)
                  then [] else [vid]))
      else [])"
  by (auto simp: new_state_def update_video_snippet_def
      split: option.splits sum.splits prod.splits if_splits)

lemma no_service_no_lookups: "\<not> yt_api self \<Longrightarrow> lookups (snd (deliver ns self)) = []"
proof (induction ns arbitrary: self)
  case Nil
  then show ?case by simp
next
  case (Cons n ns)
  obtain now st answer where n: "n = (now, st, answer)" by (cases n)
  have "\<not> yt_api (fst (snd (new_state now st answer self)))"
    using Cons.prems by (simp add: new_state_yt_api)
  then have "lookups (snd (deliver ns (fst (snd (new_state now st answer self))))) = []"
    by (rule Cons.IH)
  then show ?case unfolding n snd_deliver_Cons lookups_append
    using Cons.prems by (simp add: new_state_lookups)
qed

lemma new_state_hit:
  "yt_api self \<Longrightarrow> vid \<noteq> [] \<Longrightarrow> video_info self = Some v \<Longrightarrow> info_id v = vid \<Longrightarrow>
   video_info (fst (snd (new_state now (Some (s\<lparr>videoId := Some vid\<rparr>)) answer self))) = Some v"
  by (auto simp: new_state_def update_video_snippet_def
      split: option.splits sum.splits prod.splits if_splits)

lemma new_state_miss_success:
  "yt_api self \<Longrightarrow> vid \<noteq> [] \<Longrightarrow>
   \<exists>v. video_info (fst (snd (new_state now (Some (s\<lparr>videoId := Some vid\<rparr>)) (Inr snippet) self)))
          = Some v \<and> info_id v = vid"
  by (auto simp: new_state_def update_video_snippet_def VideoInfo_init_def
      split: option.splits sum.splits prod.splits if_splits)

lemma hit_no_lookups:
  "yt_api self \<Longrightarrow> vid \<noteq> [] \<Longrightarrow> video_info self = Some v \<Longrightarrow> info_id v = vid \<Longrightarrow>
   lookups (snd (deliver (map (carrying vid) ns) self)) = []"
proof (induction ns arbitrary: self)
  case Nil
  then show ?case by simp
next
  case (Cons n ns)
  obtain now s snippet where n: "n = (now, s, snippet)" by (cases n)
  let ?self' = "fst (snd (new_state now (Some (s\<lparr>videoId := Some vid\<rparr>)) (Inr snippet) self))"
  have a: "yt_api ?self'" using Cons.prems by (simp add: new_state_yt_api)
  have b: "video_info ?self' = Some v" using Cons.prems by (rule new_state_hit)
  have "lookups (snd (deliver (map (carrying vid) ns) ?self')) = []"
    using a Cons.prems(2) b Cons.prems(4) by (rule Cons.IH)
  then show ?case unfolding n using Cons.prems
    by (simp add: carrying_def snd_deliver_Cons lookups_append new_state_lookups
        del: deliver.simps)
qed

lemma same_id_lookups:
  assumes "yt_api self" "vid \<noteq> []"
  shows "lookups (snd (deliver (map (carrying vid) (n # ns)) self)) =
     (if (case video_info self of None \<Rightarrow> False | Some v \<Rightarrow> vid = info_id v) then [] else [vid])"
proof -
  obtain now s snippet where n: "n = (now, s, snippet)" by (cases n)
  let ?self' = "fst (snd (new_state now (Some (s\<lparr>videoId := Some vid\<rparr>)) (Inr snippet) self))"
  have a: "yt_api ?self'" using assms by (simp add: new_state_yt_api)
  obtain v where v: "video_info ?self' = Some v" "info_id v = vid"
    using new_state_miss_success[OF assms] by blast
  have rest: "lookups (snd (deliver (map (carrying vid) ns) ?self')) = []"
    using a assms(2) v by (rule hit_no_lookups)
  show ?thesis unfolding n using assms rest
    by (simp add: carrying_def snd_deliver_Cons lookups_append new_state_lookups
        del: deliver.simps)
qed

text \<open>
  Claim C5, as amended. Without a metadata service no sequence of notifications makes
  a lookup. A null snapshot, a snapshot whose media id is null and a snapshot whose
  media id is the empty string make none. With a service, a notification with a
  non-empty media id makes one lookup exactly when the cached record is absent or is
  for another id (whatever the service answers); so a run of one or more notifications
  that all carry the same id, answered by the service, makes one lookup if the record
  was not for that id, and none if it was.
\<close>

theorem lookup_single_slot_memo:
  "lookups (snd (deliver ns (self\<lparr>yt_api := False\<rparr>))) = []
   \<and> lookups (snd (snd (new_state now None answer self))) = []
   \<and> lookups (snd (snd (new_state now (Some (s\<lparr>videoId := None\<rparr>)) answer self))) = []
   \<and> lookups (snd (snd (new_state now (Some (s\<lparr>videoId := Some []\<rparr>)) answer self))) = []
   \<and> (yt_api self \<and> vid \<noteq> [] \<longrightarrow>
        lookups (snd (snd (new_state now (Some (s\<lparr>videoId := Some vid\<rparr>)) answer self))) =
          (if (case video_info self of None \<Rightarrow> False | Some v \<Rightarrow> vid = info_id v)
           then [] else [vid])
        \<and> lookups (snd (deliver (map (carrying vid) (n # ms)) self)) =
          (if (case video_info self of None \<Rightarrow> False | Some v \<Rightarrow> vid = info_id v)
           then [] else [vid]))"
proof -
  have a: "lookups (snd (deliver ns (self\<lparr>yt_api := False\<rparr>))) = []"
    by (rule no_service_no_lookups) simp
  have b: "lookups (snd (snd (new_state now None answer self))) = []"
    by (simp add: new_state_lookups)
  have c: "lookups (snd (snd (new_state now (Some (s\<lparr>videoId := None\<rparr>)) answer self))) = []"
    by (simp add: new_state_lookups)
  have c': "lookups (snd (snd (new_state now (Some (s\<lparr>videoId := Some []\<rparr>)) answer self))) = []"
    by (simp add: new_state_lookups)
  have d: "yt_api self \<and> vid \<noteq> [] \<longrightarrow>
        lookups (snd (snd (new_state now (Some (s\<lparr>videoId := Some vid\<rparr>)) answer self))) =
          (if (case video_info self of None \<Rightarrow> False | Some v \<Rightarrow> vid = info_id v)
           then [] else [vid])"
    by (simp add: new_state_lookups)
  have e: "yt_api self \<and> vid \<noteq> [] \<longrightarrow>
        lookups (snd (deliver (map (carrying vid) (n # ms)) self)) =
          (if (case video_info self of None \<Rightarrow> False | Some v \<Rightarrow> vid = info_id v)
           then [] else [vid])"
    using same_id_lookups[of self vid n ms] by blast
  from a b c c' d e show ?thesis by blast
qed

theorem lookup_single_slot_memo_witness:
  "yt_api ((YtMediaPlayer_init 0)\<lparr>yt_api := True\<rparr>) \<and> ''v1'' \<noteq> []
   \<and> lookups (snd (deliver
        (map (carrying ''v1'') [(1, playing ''v0'', snippet0), (2, playing ''v0'', snippet0)])
        ((YtMediaPlayer_init 0)\<lparr>yt_api := True\<rparr>))) = [''v1'']
   \<and> lookups (snd (snd (new_state 0 (Some ((playing ''v0'')\<lparr>videoId := Some []\<rparr>))
        (Inl OtherError) ((YtMediaPlayer_init 0)\<lparr>yt_api := True\<rparr>)))) = []"
  using lookup_single_slot_memo [of "[]" "(YtMediaPlayer_init 0)\<lparr>yt_api := True\<rparr>" 0 "Inl OtherError"
      "playing ''v0''" "''v1''" "(1, playing ''v0'', snippet0)" "[(2, playing ''v0'', snippet0)]"]
  by (simp add: YtMediaPlayer_init_def)

text \<open>
  Claim C5 as stated fails: with a service that answers, the ids v1, v2, v1 make three
  lookups, two of them for v1, though only two ids are distinct.
\<close>

theorem lookup_repeated_id_counterexample:
  "lookups (snd (deliver
      [(1, Some (playing ''v1''), Inr snippet0), (2, Some (playing ''v2''), Inr snippet0),
       (3, Some (playing ''v1''), Inr snippet0)]
      ((YtMediaPlayer_init 0)\<lparr>yt_api := True\<rparr>))) = [''v1'', ''v2'', ''v1'']"
  by (simp add: new_state_def update_video_snippet_def YtMediaPlayer_init_def playing_def
      VideoInfo_init_def)

text \<open>
  Claim C6, as amended. When the metadata lookup raises during a state-change
  notification, the exception is not handled: it leaves the state update. The new
  snapshot and its timestamp have been stored by then, the metadata record keeps the
  value it had, and the host is not notified.
\<close>

theorem lookup_exception_leaves_new_state:
  "yt_api self \<and> vid \<noteq> []
   \<and> \<not> (case video_info self of None \<Rightarrow> False | Some v \<Rightarrow> vid = info_id v) \<longrightarrow>
   new_state now (Some (s\<lparr>videoId := Some vid\<rparr>)) (Inl e) self =
     (Some e, self\<lparr>state_time := now, cached_state := Some (s\<lparr>videoId := Some vid\<rparr>)\<rparr>,
      [CallLookup vid])"
  by (auto simp: new_state_def update_video_snippet_def split: option.splits)

theorem lookup_exception_leaves_new_state_witness:
  "yt_api ((YtMediaPlayer_init 0)\<lparr>yt_api := True\<rparr>) \<and> ''v1'' \<noteq> []
   \<and> \<not> (case video_info ((YtMediaPlayer_init 0)\<lparr>yt_api := True\<rparr>) of
          None \<Rightarrow> False | Some v \<Rightarrow> ''v1'' = info_id v)
   \<and> new_state 1 (Some (playing ''v1'')) (Inl OtherError)
       ((YtMediaPlayer_init 0)\<lparr>yt_api := True\<rparr>) =
     (Some OtherError,
      (YtMediaPlayer_init 0)\<lparr>yt_api := True, state_time := 1,
        cached_state := Some (playing ''v1'')\<rparr>,
      [CallLookup ''v1''])"
  using lookup_exception_leaves_new_state
    [of "(YtMediaPlayer_init 0)\<lparr>yt_api := True\<rparr>" "''v1''" 1 "playing ''v0''" OtherError]
  by (simp add: YtMediaPlayer_init_def playing_def)

text \<open>
  Claim C6 as stated fails: with the record of video v0 cached, a notification for v1
  whose lookup raises makes the state update raise, without the notification of the
  host, and the title shown is still the one of v0.
\<close>

theorem lookup_exception_not_swallowed_counterexample:
  "fst (new_state 1 (Some (playing ''v1'')) (Inl OtherError)
      ((YtMediaPlayer_init 0)\<lparr>yt_api := True,
         video_info := Some (VideoInfo_init ''v0'' snippet0)\<rparr>)) = Some OtherError
   \<and> WriteHaState \<notin> set (snd (snd (new_state 1 (Some (playing ''v1'')) (Inl OtherError)
      ((YtMediaPlayer_init 0)\<lparr>yt_api := True,
         video_info := Some (VideoInfo_init ''v0'' snippet0)\<rparr>))))
   \<and> media_title (fst (snd (new_state 1 (Some (playing ''v1'')) (Inl OtherError)
      ((YtMediaPlayer_init 0)\<lparr>yt_api := True,
         video_info := Some (VideoInfo_init ''v0'' snippet0)\<rparr>)))) = Some ''t''"
  by (simp add: new_state_def update_video_snippet_def YtMediaPlayer_init_def playing_def
      VideoInfo_init_def snippet0_def media_title_def)

section \<open>The reconnect loop: theorems\<close>

text \<open>
  Claim C2. One pass through the reconnect loop, entered because \<open>connected()\<close> is
  false: the null snapshot is published, the task sleeps 10 seconds and asks
  \<open>linked()\<close>. If that is false the next call is \<open>refresh_auth()\<close>, and \<open>connect()\<close>
  follows when it has returned; if it is true the next call is \<open>connect()\<close> and
  \<open>refresh_auth()\<close> is not called.
\<close>

theorem refresh_auth_only_when_not_linked:
  "run (AtConnected1, self) [(t1, Returns False), (t2, Returns b), (t3, Returns l)] =
     (if l then AtConnect1 else AtRefresh,
      self\<lparr>state_time := t1, cached_state := None, video_info := None\<rparr>,
      [WriteHaState, CallSleep 10, CallLinked, if l then CallConnect else CallRefreshAuth])
   \<and> resume AtRefresh (t4, Returns r) self' = (AtConnect1, self', [CallConnect])"
  by (simp add: new_state_def update_video_snippet_def CONNECT_RETRY_INTERVAL_def)

text \<open>
  Claim C8. While \<open>connected()\<close> is false the task publishes the null snapshot (the
  cache is cleared), sleeps 10 seconds, asks \<open>linked()\<close>, refreshes the credential if
  that is false, and calls \<open>connect()\<close>; after \<open>connect()\<close> it asks \<open>connected()\<close> again,
  and it leaves the loop for \<open>subscribe\<close> exactly when the answer is true. When
  \<open>subscribe\<close> returns it sleeps 1 second and asks \<open>connected()\<close> again. With three
  failed \<open>connect()\<close> calls and a fourth that succeeds, there is a sleep of 10 seconds
  between each failed attempt and the next.
\<close>

theorem reconnect_loop_order:
  "fst (resume AtConnected1 (t, Returns c) self) = (if c then AtSubscribe else AtSleepRetry)
   \<and> resume AtConnected1 (t, Returns False) self =
       (AtSleepRetry, self\<lparr>state_time := t, cached_state := None, video_info := None\<rparr>,
        [WriteHaState, CallSleep 10])
   \<and> run (AtSleepRetry, self) [(t1, Returns b1), (t2, Returns l)] =
       (if l then AtConnect1 else AtRefresh, self,
        [CallLinked, if l then CallConnect else CallRefreshAuth])
   \<and> resume AtRefresh (t, Returns r) self = (AtConnect1, self, [CallConnect])
   \<and> resume AtConnect1 (t, Returns b) self = (AtConnected1, self, [CallConnected])
   \<and> resume AtConnected1 (t, Returns True) self = (AtSubscribe, self, [CallSubscribe])
   \<and> run (AtSubscribe, self) [(t1, Returns b1), (t2, Returns b2)] =
       (AtConnected1, self, [CallSleep 1, CallConnected])
   \<and> run (Created, self)
        [(0, Returns True),
         (1, Returns False), (2, Returns False),
         (3, Returns False), (13, Returns True), (14, Returns True), (15, Returns False),
         (16, Returns False), (26, Returns True), (27, Returns True), (28, Returns False),
         (29, Returns False), (39, Returns True), (40, Returns True), (41, Returns True),
         (42, Returns True)] =
       (AtSubscribe, self\<lparr>state_time := 29, cached_state := None, video_info := None\<rparr>,
        [CallConnected,
         CallConnect, CallConnected,
         WriteHaState, CallSleep 10, CallLinked, CallConnect, CallConnected,
         WriteHaState, CallSleep 10, CallLinked, CallConnect, CallConnected,
         WriteHaState, CallSleep 10, CallLinked, CallConnect, CallConnected,
         CallSubscribe])"
  by (simp add: new_state_def update_video_snippet_def CONNECT_RETRY_INTERVAL_def
      SUBSCRIBE_RETRY_INTERVAL_def)

section \<open>The retry wrapper: theorems\<close>

lemma resume_not_finished:
  "\<not> finished p \<Longrightarrow> \<not> cancels r \<Longrightarrow> \<not> finished (fst (resume p (now, r) self))"
  apply (cases p; cases r rule: cancels.cases)
  apply (auto simp: raised_def new_state_def update_video_snippet_def
      split: exn.splits prod.splits option.splits sum.splits if_splits)
  done

lemma fst_run_Cons:
  "fst (run (p, self) (x # xs)) =
     fst (run (fst (resume p x self), fst (snd (resume p x self))) xs)"
  by (simp split: prod.splits)

lemma run_not_finished:
  "\<not> finished p \<Longrightarrow> list_all (\<lambda>(t, r). \<not> cancels r) script \<Longrightarrow>
   \<not> finished (fst (run (p, self) script))"
proof (induction script arbitrary: p self)
  case Nil
  then show ?case by simp
next
  case (Cons x script)
  obtain t r where x: "x = (t, r)" by (cases x)
  from Cons.prems x have nc: "\<not> cancels r" by simp
  have "\<not> finished (fst (resume p x self))"
    unfolding x by (rule resume_not_finished[OF Cons.prems(1) nc])
  moreover from Cons.prems have "list_all (\<lambda>(t, r). \<not> cancels r) script" by simp
  ultimately
  have "\<not> finished (fst (run (fst (resume p x self), fst (snd (resume p x self))) script))"
    by (rule Cons.IH)
  then show ?case by (subst fst_run_Cons)
qed

text \<open>
  Claim C3, as amended. A cancellation raised in any call of the inner loop ends the
  task at once: no sleep, no restart. Any other exception of a call of the inner loop
  is logged and followed by the sleep of 30 seconds, and the entity, the cached
  snapshot included, is as it was; when the sleep returns the inner loop starts again
  with \<open>connected()\<close> of its connect phase, which calls \<open>connect()\<close> if the answer is
  false, and if the channel is connected, at once or after that \<open>connect()\<close>, it
  subscribes again without publishing a null snapshot. As long as no reply brings a
  cancellation the task does not finish, however long the script.
\<close>

theorem supervision_error_handling:
  "(p \<in> set [AtConnected0, AtConnect0, AtConnected1, AtSleepRetry, AtLinked, AtRefresh,
             AtConnect1, AtSubscribe, AtSleepSub] \<longrightarrow>
      resume p (t, Raises CancelledError) self = (Exited, self, []))
   \<and> (p \<in> set [AtConnected0, AtConnect0, AtConnected1, AtLinked, AtRefresh, AtConnect1,
               AtSubscribe] \<longrightarrow>
      resume p (t, Raises OtherError) self = (AtBackoff, self, [LogException, CallSleep 30]))
   \<and> resume AtBackoff (t, Returns b) self = (AtConnected0, self, [CallConnected])
   \<and> resume AtConnected0 (t, Returns False) self = (AtConnect0, self, [CallConnect])
   \<and> run (AtBackoff, self) [(t1, Returns b), (t2, Returns True), (t3, Returns True)] =
       (AtSubscribe, self, [CallConnected, CallConnected, CallSubscribe])
   \<and> (\<not> finished q \<and> list_all (\<lambda>(t, r). \<not> cancels r) script \<longrightarrow>
        \<not> finished (fst (run (q, self) script)))
   \<and> run (AtBackoff, self)
        [(t1, Returns b), (t2, Returns False), (t3, Returns c), (t4, Returns True)] =
       (AtSubscribe, self, [CallConnected, CallConnect, CallConnected, CallSubscribe])"
proof -
  have a: "p \<in> set [AtConnected0, AtConnect0, AtConnected1, AtSleepRetry, AtLinked, AtRefresh,
             AtConnect1, AtSubscribe, AtSleepSub] \<longrightarrow>
      resume p (t, Raises CancelledError) self = (Exited, self, [])"
    by (auto simp: raised_def)
  have b: "p \<in> set [AtConnected0, AtConnect0, AtConnected1, AtLinked, AtRefresh, AtConnect1,
               AtSubscribe] \<longrightarrow>
      resume p (t, Raises OtherError) self = (AtBackoff, self, [LogException, CallSleep 30])"
    by (auto simp: raised_def ERROR_RETRY_INTERVAL_def)
  have c: "resume AtBackoff (t, Returns b) self = (AtConnected0, self, [CallConnected])"
    by simp
  have d: "resume AtConnected0 (t, Returns False) self = (AtConnect0, self, [CallConnect])"
    by simp
  have e: "run (AtBackoff, self) [(t1, Returns b), (t2, Returns True), (t3, Returns True)] =
       (AtSubscribe, self, [CallConnected, CallConnected, CallSubscribe])"
    by simp
  have f: "\<not> finished q \<and> list_all (\<lambda>(t, r). \<not> cancels r) script \<longrightarrow>
        \<not> finished (fst (run (q, self) script))"
    using run_not_finished by blast
  have g: "run (AtBackoff, self)
        [(t1, Returns b), (t2, Returns False), (t3, Returns c), (t4, Returns True)] =
       (AtSubscribe, self, [CallConnected, CallConnect, CallConnected, CallSubscribe])"
    by simp
  from a b c d e f g show ?thesis by blast
qed

theorem supervision_error_handling_witness:
  "AtSubscribe \<in> set [AtConnected0, AtConnect0, AtConnected1, AtSleepRetry, AtLinked,
      AtRefresh, AtConnect1, AtSubscribe, AtSleepSub]
   \<and> AtSubscribe \<in> set [AtConnected0, AtConnect0, AtConnected1, AtLinked, AtRefresh,
      AtConnect1, AtSubscribe]
   \<and> \<not> finished AtSubscribe
   \<and> list_all (\<lambda>(t, r). \<not> cancels r)
       [(1, Raises OtherError), (31, Returns True), (32, Raises OtherError)]
   \<and> resume AtSubscribe (1, Raises CancelledError) (YtMediaPlayer_init 0) =
       (Exited, YtMediaPlayer_init 0, [])
   \<and> resume AtSubscribe (1, Raises OtherError) (YtMediaPlayer_init 0) =
       (AtBackoff, YtMediaPlayer_init 0, [LogException, CallSleep 30])
   \<and> \<not> finished (fst (run (AtSubscribe, YtMediaPlayer_init 0)
       [(1, Raises OtherError), (31, Returns True), (32, Raises OtherError)]))"
  using supervision_error_handling
    [of AtSubscribe 1 "YtMediaPlayer_init 0" True 0 0 0 AtSubscribe
      "[(1, Raises OtherError), (31, Returns True), (32, Raises OtherError)]"]
  by simp

text \<open>
  Claim C3 as stated fails: the task subscribes, a playing snapshot is delivered and
  \<open>subscribe\<close> raises an error. The task is in its sleep of 30 seconds with the
  observable state PLAYING; the sleep returns, the channel is connected, the task
  subscribes again, and the state has been PLAYING throughout: it has not become
  off/unknown.
\<close>

theorem error_keeps_state_counterexample:
  "fst (run (Created, YtMediaPlayer_init 0)
      [(0, Returns True), (1, Returns True), (2, Returns True),
       (3, Notifies (Some (playing ''v1'')) (Inl OtherError)), (4, Raises OtherError)])
     = AtBackoff
   \<and> state_prop (fst (snd (run (Created, YtMediaPlayer_init 0)
      [(0, Returns True), (1, Returns True), (2, Returns True),
       (3, Notifies (Some (playing ''v1'')) (Inl OtherError)), (4, Raises OtherError)])))
     = PLAYING
   \<and> run (Created, YtMediaPlayer_init 0)
      [(0, Returns True), (1, Returns True), (2, Returns True),
       (3, Notifies (Some (playing ''v1'')) (Inl OtherError)), (4, Raises OtherError),
       (34, Returns True), (35, Returns True), (36, Returns True)] =
      (AtSubscribe,
       (YtMediaPlayer_init 0)\<lparr>state_time := 3, cached_state := Some (playing ''v1'')\<rparr>,
       [CallConnected, CallConnected, CallSubscribe, WriteHaState, LogException,
        CallSleep 30, CallConnected, CallConnected, CallSubscribe])
   \<and> state_prop
       ((YtMediaPlayer_init 0)\<lparr>state_time := 3, cached_state := Some (playing ''v1'')\<rparr>)
     = PLAYING"
  by (simp add: new_state_def update_video_snippet_def YtMediaPlayer_init_def playing_def
      raised_def ERROR_RETRY_INTERVAL_def state_prop_def)

section \<open>The manual reconnect: theorems\<close>

text \<open>
  Claim C10. Invoked while the task handle is null, the manual reconnect starts a new
  supervision task and calls neither \<open>refresh_auth()\<close> nor \<open>connect()\<close>; the handle is
  null after the entity has been removed, so that is one such case.
\<close>

theorem manual_reconnect_without_task:
  "manual_reconnect now refresh_res connect_res (w\<lparr>player := (player w)\<lparr>subscription := None\<rparr>\<rparr>) =
     (None,
      w\<lparr>player := (player w)\<lparr>subscription := Some (length (tasks w))\<rparr>,
        tasks := tasks w @ [Created]\<rparr>,
      [])
   \<and> subscription (player (removed_from_hass now' w)) = None
   \<and> snd (snd (manual_reconnect now refresh_res connect_res (removed_from_hass now' w))) = []"
  by (simp add: manual_reconnect_def start_subscription_task_def async_create_task_def
      removed_from_hass_def Let_def split: option.splits)

lemma cancel_finishes: "finished (fst (resume p (now, Raises CancelledError) self))"
  by (cases p) (auto simp: raised_def)

text \<open>
  From every call of the inner loop a task can be suspended in, the manual reconnect
  does what is expected of it: the task has returned, \<open>refresh_auth()\<close> and \<open>connect()\<close>
  are called once each, and a new task is made and stored.
\<close>

lemma manual_reconnect_supersedes:
  assumes "subscription (player w) = Some i" "i < length (tasks w)"
    "tasks w ! i \<in> set [AtConnect0, AtSleepRetry, AtRefresh, AtConnect1, AtSubscribe, AtSleepSub]"
  shows "manual_reconnect now (Inr r) (Inr c) w =
    (None,
     \<lparr>player = (player w)\<lparr>subscription := Some (length (tasks w))\<rparr>,
      tasks = (tasks w)[i := Exited] @ [Created]\<rparr>,
     [CallRefreshAuth, CallConnect])"
  using assms
  by (auto simp: manual_reconnect_def cancel_def await_task_def Let_def raised_def
      start_subscription_task_def async_create_task_def)

lemma world_in_backoff_eq:
  "world_in_backoff =
     \<lparr>player = (YtMediaPlayer_init 0)\<lparr>subscription := Some 0\<rparr>, tasks = [AtBackoff]\<rparr>"
  by (simp add: world_in_backoff_def run_task_def async_added_to_hass_def
      start_subscription_task_def async_create_task_def raised_def)

text \<open>
  Claim C1 does not hold of the code. The supervision task is running, in the sleep of
  30 seconds that follows an error. The manual reconnect cancels it; the cancellation
  is raised in the handler of the wrapper, outside its \<open>try\<close>, and leaves the task;
  \<open>await self._subscription\<close> raises it in \<open>manual_reconnect\<close>, which ends there:
  \<open>refresh_auth()\<close> and \<open>connect()\<close> are not called, no task is started and none is
  alive. The handle still names the cancelled task, so a second manual reconnect ends
  in the same way.
\<close>

theorem manual_reconnect_during_backoff:
  "world_in_backoff =
     \<lparr>player = (YtMediaPlayer_init 0)\<lparr>subscription := Some 0\<rparr>, tasks = [AtBackoff]\<rparr>
   \<and> alive world_in_backoff = [0]
   \<and> manual_reconnect 5 (Inr True) (Inr True) world_in_backoff =
       (Some CancelledError,
        \<lparr>player = (YtMediaPlayer_init 0)\<lparr>subscription := Some 0\<rparr>,
         tasks = [Crashed CancelledError]\<rparr>,
        [])
   \<and> alive \<lparr>player = (YtMediaPlayer_init 0)\<lparr>subscription := Some 0\<rparr>,
             tasks = [Crashed CancelledError]\<rparr> = []
   \<and> manual_reconnect 6 (Inr True) (Inr True)
        \<lparr>player = (YtMediaPlayer_init 0)\<lparr>subscription := Some 0\<rparr>,
         tasks = [Crashed CancelledError]\<rparr> =
       (Some CancelledError,
        \<lparr>player = (YtMediaPlayer_init 0)\<lparr>subscription := Some 0\<rparr>,
         tasks = [Crashed CancelledError]\<rparr>,
        [])"
  by (simp add: world_in_backoff_eq manual_reconnect_def cancel_def await_task_def alive_def
      Let_def)

text \<open>
  Two invocations that overlap: both have passed \<open>await self._subscription\<close> (130)
  before either reaches the last line (135). The first task is cancelled once and has
  returned, both awaits return, and each invocation then starts a task of its own:
  two supervision tasks are alive, and the handle names the second only.
\<close>

lemma overlapping_manual_reconnects:
  "await_task 0 (cancel 5 0
      \<lparr>player = (YtMediaPlayer_init 0)\<lparr>subscription := Some 0\<rparr>, tasks = [AtSubscribe]\<rparr>) = None
   \<and> await_task 0 (cancel 6 0 (cancel 5 0
      \<lparr>player = (YtMediaPlayer_init 0)\<lparr>subscription := Some 0\<rparr>, tasks = [AtSubscribe]\<rparr>)) = None
   \<and> alive (start_subscription_task (start_subscription_task (cancel 6 0 (cancel 5 0
      \<lparr>player = (YtMediaPlayer_init 0)\<lparr>subscription := Some 0\<rparr>, tasks = [AtSubscribe]\<rparr>))))
     = [1, 2]"
  by (simp add: cancel_def await_task_def alive_def raised_def start_subscription_task_def
      async_create_task_def upt_rec)

end
